theory Spec2Isabelle
  imports Complex_Main "HOL-Library.Sublist"
begin

section \<open>Data model (schemas/models.py)\<close>

text \<open>
  The five dataclasses of \<^verbatim>\<open>schemas/models.py\<close>. The fields annotated \<^verbatim>\<open>float\<close>
  (\<^verbatim>\<open>score_cp\<close>, \<^verbatim>\<open>eval_drop_cp\<close>) only ever hold Python integers: the engine wrapper
  stores a centipawn count of the chess library, one of the literals 10000, -10000 and 0,
  or the negation or difference of such values. They are unbounded integers here.

  A Python string is a sequence of Unicode code points. The texts that reach the program
  from outside (the game text, the response of the explanation backend and so the fields
  of an explanation) are lists of code points; \<open>ascii\<close> is the Python string of an
  ASCII literal. The strings the program or the chess library makes (colours, position
  strings, move notations) are ASCII and are of type \<open>string\<close>.
\<close>

type_synonym unicode = "nat list"

definition ascii :: "string \<Rightarrow> unicode" where
  "ascii s = map of_char s"

record Position =
  fen :: string
  move_number :: int
  player_color :: string

record Evaluation =
  score_cp :: int
  best_move_uci :: string
  best_move_san :: string

record Mistake =
  position_before_move :: Position
  position_after_move :: Position
  move_played :: string
  evaluation_before :: Evaluation
  evaluation_after :: Evaluation
  eval_drop_cp :: int

record Explanation =
  why_good :: unicode
  why_failed :: unicode
  concept_involved :: unicode
  typical_pattern :: unicode

record AnalyzedMistake =
  the_mistake :: Mistake
  the_explanation :: Explanation

section \<open>The chess library as the program sees it\<close>

text \<open>
  The program is written against the chess library. What it uses of the library's score
  types is small and is written out: a score is a centipawn count, a mate in a signed
  number of moves, or a delivered mate; \<^verbatim>\<open>score()\<close> is the centipawn count of a
  centipawn score and \<^verbatim>\<open>None\<close> of a mate score, \<^verbatim>\<open>mate()\<close> is the number of moves of
  a mate score (0 for a delivered mate) and \<^verbatim>\<open>None\<close> of a centipawn score. The engine
  reports a score with a point of view: the attribute \<^verbatim>\<open>relative\<close> is the score seen
  from the side \<^verbatim>\<open>turn\<close>, which for an analysis is the side to move of the analysed board;
  \<^verbatim>\<open>pov(color)\<close> is the score seen from \<^verbatim>\<open>color\<close>.
\<close>

datatype color = WHITE | BLACK

datatype score = Cp int | Mate int | MateGiven

fun score_of :: "score \<Rightarrow> int option" where
  "score_of (Cp n) = Some n"
| "score_of (Mate n) = None"
| "score_of MateGiven = None"

fun mate :: "score \<Rightarrow> int option" where
  "mate (Cp n) = None"
| "mate (Mate n) = Some n"
| "mate MateGiven = Some 0"

fun neg_score :: "score \<Rightarrow> score" where
  "neg_score (Cp n) = Cp (- n)"
| "neg_score (Mate n) = (if n = 0 then MateGiven else Mate (- n))"
| "neg_score MateGiven = Mate 0"

record PovScore =
  relative :: score
  pov_turn :: color

definition is_mate :: "PovScore \<Rightarrow> bool" where
  "is_mate s = (mate (relative s) \<noteq> None)"

definition pov :: "PovScore \<Rightarrow> color \<Rightarrow> score" where
  "pov s c = (if pov_turn s = c then relative s else neg_score (relative s))"

text \<open>
  The result of \<^verbatim>\<open>analyse\<close>: a dictionary read with \<^verbatim>\<open>info.get("score")\<close> and
  \<^verbatim>\<open>info.get("pv", [])\<close>, so a missing score is \<^verbatim>\<open>None\<close> and a missing principal
  variation is the empty list.
\<close>

record 'm info =
  info_score :: "PovScore option"
  info_pv :: "'m list"

datatype error =
  ValueError string
| RuntimeError string
| EngineError string
| ExplainerError string

text \<open>
  The rest of the library is taken as it is, as a record of operations over a type
  \<open>'b\<close> of boards, a type \<open>'m\<close> of moves and a type \<open>'h\<close> of engine processes:
  the side to move, \<^verbatim>\<open>push\<close> (which returns the board after the move here, where the
  library updates the board in place), \<^verbatim>\<open>fen()\<close>, \<^verbatim>\<open>fullmove_number\<close>, \<^verbatim>\<open>san(move)\<close>,
  \<^verbatim>\<open>move.uci()\<close>, the game the parser builds from a text that holds one (its starting
  board \<^verbatim>\<open>game.board()\<close> and the moves of \<^verbatim>\<open>game.mainline()\<close>) with the errors it notes
  in \<^verbatim>\<open>game.errors\<close> on the way, \<^verbatim>\<open>popen_uci\<close>, and \<^verbatim>\<open>analyse\<close> and \<^verbatim>\<open>quit\<close> of an
  engine process. An engine process answers as a function of the board and the depth;
  \<^verbatim>\<open>analyse\<close> may fail, and so may \<^verbatim>\<open>quit\<close> (\<open>Some\<close> is the exception it raises, as
  for a process that has died or does not answer in time).
\<close>

record ('b, 'm, 'h) chess =
  board_turn :: "'b \<Rightarrow> color"
  board_push :: "'b \<Rightarrow> 'm \<Rightarrow> 'b"
  board_fen :: "'b \<Rightarrow> string"
  board_fullmove_number :: "'b \<Rightarrow> int"
  board_san :: "'b \<Rightarrow> 'm \<Rightarrow> string"
  move_uci :: "'m \<Rightarrow> string"
  parse_game :: "unicode \<Rightarrow> 'b \<times> 'm list"
  parse_errors :: "unicode \<Rightarrow> string list"
  popen_uci :: "string \<Rightarrow> error + 'h"
  analyse :: "'h \<Rightarrow> 'b \<Rightarrow> int \<Rightarrow> error + 'm info"
  engine_quit :: "'h \<Rightarrow> error option"

text \<open>
  Python's \<^verbatim>\<open>str.isspace\<close>, which is also what \<^verbatim>\<open>str.strip()\<close> removes: the white
  space of Unicode.
\<close>

definition isspace :: "nat \<Rightarrow> bool" where
  "isspace c =
     (c \<in> {0x09, 0x0A, 0x0B, 0x0C, 0x0D, 0x1C, 0x1D, 0x1E, 0x1F, 0x20, 0x85, 0xA0,
            0x1680, 0x2028, 0x2029, 0x202F, 0x205F, 0x3000}
      \<or> (0x2000 \<le> c \<and> c \<le> 0x200A))"


fun split_on :: "'a \<Rightarrow> 'a list \<Rightarrow> 'a list list" where
  "split_on d [] = [[]]"
| "split_on d (c # cs) =
     (if c = d then [] # split_on d cs
      else (case split_on d cs of
              l # ls \<Rightarrow> (c # l) # ls
            | [] \<Rightarrow> [[c]]))"

text \<open>
  \<^verbatim>\<open>read_game\<close> drops a byte order mark at the start, skips the lines that are blank or
  start with \<open>%\<close> or \<open>;\<close>, and returns \<^verbatim>\<open>None\<close> when the text ends there: the text
  holds no game. Any other line starts a game, and the parser then returns a game
  whatever follows: what it cannot read as a move is noted in \<^verbatim>\<open>game.errors\<close> and ends
  the main line, and no exception is raised.
\<close>

definition no_game :: "unicode \<Rightarrow> bool" where
  "no_game text =
     list_all (\<lambda>line. list_all isspace line
                      \<or> (case line of c # _ \<Rightarrow> c = 0x25 \<or> c = 0x3B | [] \<Rightarrow> False))
       (split_on 0x0A (dropWhile (\<lambda>c. c = 0xFEFF) text))"

definition read_game :: "('b, 'm, 'h) chess \<Rightarrow> unicode \<Rightarrow> ('b \<times> 'm list) option" where
  "read_game L text = (if no_game text then None else Some (parse_game L text))"

section \<open>The engine wrapper (engines/stockfish\_engine.py)\<close>

record 'h StockfishEngine =
  stockfish_path :: string
  depth :: int
  engine :: "'h option"

definition start :: "('b, 'm, 'h) chess \<Rightarrow> 'h StockfishEngine \<Rightarrow> error + 'h StockfishEngine" where
  "start L self =
     (case popen_uci L (stockfish_path self) of
        Inl e \<Rightarrow> Inl e
      | Inr h \<Rightarrow> Inr (self\<lparr>engine := Some h\<rparr>))"

text \<open>
  \<^verbatim>\<open>close\<close> returns the processes it asked to quit, in order, the exception it raised if
  any, and the session after the call. When \<^verbatim>\<open>quit()\<close> raises, the assignment after it
  is not reached and the session keeps its process.
\<close>

definition close ::
  "('b, 'm, 'h) chess \<Rightarrow> 'h StockfishEngine \<Rightarrow> 'h list \<times> error option \<times> 'h StockfishEngine" where
  "close L self =
     (case engine self of
        None \<Rightarrow> ([], None, self)
      | Some h \<Rightarrow>
          (case engine_quit L h of
             Some e \<Rightarrow> ([h], Some e, self)
           | None \<Rightarrow> ([h], None, self\<lparr>engine := None\<rparr>)))"

text \<open>
  \<^verbatim>\<open>_score_to_centipawns\<close>. The variable \<^verbatim>\<open>cp\<close> is an integer or \<^verbatim>\<open>None\<close>; the test
  \<^verbatim>\<open>score.is_mate()\<close> is \<^verbatim>\<open>score.relative.mate() is not None\<close>, so the two branches are
  the two cases of \<^verbatim>\<open>mate\<close>. The last line \<^verbatim>\<open>cp or 0\<close> is 0 for \<^verbatim>\<open>None\<close> and for 0.
\<close>

definition score_to_centipawns :: "PovScore \<Rightarrow> color \<Rightarrow> int" where
  "score_to_centipawns sc turn =
     (let cp = (case mate (relative sc) of
                  Some mate_in \<Rightarrow> Some (if mate_in > 0 then 10000 else - 10000)
                | None \<Rightarrow> score_of (relative sc));
          cp = (if turn = BLACK then (case cp of Some c \<Rightarrow> Some (- c) | None \<Rightarrow> Some 0) else cp)
      in (case cp of None \<Rightarrow> 0 | Some c \<Rightarrow> if c = 0 then 0 else c))"

definition evaluate :: "('b, 'm, 'h) chess \<Rightarrow> 'h StockfishEngine \<Rightarrow> 'b \<Rightarrow> error + Evaluation" where
  "evaluate L self board =
     (case engine self of
        None \<Rightarrow> Inl (RuntimeError ''Engine not started. Use context manager or call start()'')
      | Some h \<Rightarrow>
          (case analyse L h board (depth self) of
             Inl e \<Rightarrow> Inl e
           | Inr info \<Rightarrow>
               (let cp_score = (case info_score info of
                                  Some sc \<Rightarrow> score_to_centipawns sc (board_turn L board)
                                | None \<Rightarrow> 0)
                in (case info_pv info of
                      best_move # _ \<Rightarrow>
                        Inr \<lparr>score_cp = cp_score,
                             best_move_uci = move_uci L best_move,
                             best_move_san = board_san L board best_move\<rparr>
                    | [] \<Rightarrow>
                        Inr \<lparr>score_cp = cp_score,
                             best_move_uci = '''',
                             best_move_san = ''(none)''\<rparr>))))"

text \<open>
  \<^verbatim>\<open>is_blunder\<close>. The threshold is a Python float or integer; Python compares an integer
  with a finite float by value, so a finite threshold is a real number.
\<close>

definition is_blunder :: "Evaluation \<Rightarrow> Evaluation \<Rightarrow> real \<Rightarrow> bool" where
  "is_blunder eval_before eval_after threshold =
     (let eval_drop = score_cp eval_before - score_cp eval_after
      in real_of_int eval_drop \<ge> threshold)"

section \<open>The explainers (llms/mock\_explainer.py, llms/openai\_explainer.py)\<close>

definition mock_explain_mistake :: "Mistake \<Rightarrow> Explanation" where
  "mock_explain_mistake mistake =
     \<lparr>why_good = ascii (''[Mock] The move '' @ move_played mistake
                   @ '' appeared to develop your pieces and control the center.''),
      why_failed = ascii (''[Mock] This move ignores a critical tactical threat. The best move was ''
                   @ best_move_san (evaluation_before mistake) @ ''.''),
      concept_involved = ascii ''[Mock] Tactical awareness and threat recognition'',
      typical_pattern = ascii ''[Mock] Always check for opponent's threats (checks, captures, attacks) before making your move.''\<rparr>"






section \<open>The pipeline (core/game\_analyzer.py)\<close>

text \<open>
  The analyzer holds an engine session, an explainer (any implementation of
  \<^verbatim>\<open>explain_mistake\<close>, which may fail) and the threshold.
\<close>

record 'h GameAnalyzer =
  analyzer_engine :: "'h StockfishEngine"
  explainer :: "Mistake \<Rightarrow> error + Explanation"
  blunder_threshold :: real

text \<open>
  The loop over \<^verbatim>\<open>game.mainline()\<close>. Its state is the running board, the list
  \<^verbatim>\<open>mistakes\<close>, and the boards \<^verbatim>\<open>engine.evaluate\<close> has been called on so far, in the
  order of the calls. An exception ends the run: the result is then the error, with the
  calls made up to it.
\<close>

fun mainline_loop ::
  "('b, 'm, 'h) chess \<Rightarrow> 'h GameAnalyzer \<Rightarrow> string \<Rightarrow> 'm list \<Rightarrow> 'b \<Rightarrow> 'b list \<Rightarrow>
   AnalyzedMistake list \<Rightarrow> 'b list \<times> (error + AnalyzedMistake list)" where
  "mainline_loop L self target_color [] board calls mistakes = (calls, Inr mistakes)"
| "mainline_loop L self target_color (move # rest) board calls mistakes =
     (let move_color = (if board_turn L board = WHITE then ''white'' else ''black'')
      in if target_color \<noteq> ''both'' \<and> target_color \<noteq> move_color
         then mainline_loop L self target_color rest (board_push L board move) calls mistakes
         else
           (case evaluate L (analyzer_engine self) board of
              Inl e \<Rightarrow> (calls @ [board], Inl e)
            | Inr eval_before \<Rightarrow>
                (let fen_before = board_fen L board;
                     move_number = board_fullmove_number L board;
                     move_san = board_san L board move;
                     board' = board_push L board move
                 in (case evaluate L (analyzer_engine self) board' of
                       Inl e \<Rightarrow> (calls @ [board, board'], Inl e)
                     | Inr eval_after \<Rightarrow>
                         (let eval_after_flipped =
                                \<lparr>score_cp = - score_cp eval_after,
                                 best_move_uci = best_move_uci eval_after,
                                 best_move_san = best_move_san eval_after\<rparr>
                          in if is_blunder eval_before eval_after_flipped (blunder_threshold self)
                             then
                               (let fen_after = board_fen L board';
                                    position_before =
                                      \<lparr>fen = fen_before, move_number = move_number,
                                       player_color = move_color\<rparr>;
                                    position_after =
                                      \<lparr>fen = fen_after, move_number = move_number,
                                       player_color = move_color\<rparr>;
                                    mistake =
                                      \<lparr>position_before_move = position_before,
                                       position_after_move = position_after,
                                       move_played = move_san,
                                       evaluation_before = eval_before,
                                       evaluation_after = eval_after_flipped,
                                       eval_drop_cp = score_cp eval_before - score_cp eval_after_flipped\<rparr>
                                in (case explainer self mistake of
                                      Inl e \<Rightarrow> (calls @ [board, board'], Inl e)
                                    | Inr explanation \<Rightarrow>
                                        mainline_loop L self target_color rest board'
                                          (calls @ [board, board'])
                                          (mistakes @ [\<lparr>the_mistake = mistake,
                                                        the_explanation = explanation\<rparr>])))
                             else mainline_loop L self target_color rest board'
                                    (calls @ [board, board']) mistakes)))))"

definition analyze_pgn ::
  "('b, 'm, 'h) chess \<Rightarrow> 'h GameAnalyzer \<Rightarrow> unicode \<Rightarrow> string \<Rightarrow>
   'b list \<times> (error + AnalyzedMistake list)" where
  "analyze_pgn L self pgn_string target_color =
     (case read_game L pgn_string of
        None \<Rightarrow> ([], Inl (ValueError ''Invalid PGN: could not parse game''))
      | Some (board, mainline) \<Rightarrow> mainline_loop L self target_color mainline board [] [])"

section \<open>One pass of the loop\<close>

text \<open>
  What one pass of the loop does with a move, as a value: the move is skipped, the pass
  raises, the move is analysed and is no mistake, or it is analysed and a mistake is
  emitted. The passes carry the boards \<^verbatim>\<open>engine.evaluate\<close> was called on.
  \<open>mainline_loop_Cons\<close> below proves that the loop is the iteration of this pass.
\<close>

datatype 'b outcome =
  Skipped
| Failed "'b list" error
| Passed "'b list"
| Emitted "'b list" AnalyzedMistake

definition flipped :: "Evaluation \<Rightarrow> Evaluation" where
  "flipped eval_after =
     \<lparr>score_cp = - score_cp eval_after,
      best_move_uci = best_move_uci eval_after,
      best_move_san = best_move_san eval_after\<rparr>"

definition mover :: "('b, 'm, 'h) chess \<Rightarrow> 'b \<Rightarrow> string" where
  "mover L board = (if board_turn L board = WHITE then ''white'' else ''black'')"

definition built_mistake ::
  "('b, 'm, 'h) chess \<Rightarrow> 'b \<Rightarrow> 'm \<Rightarrow> Evaluation \<Rightarrow> Evaluation \<Rightarrow> Mistake" where
  "built_mistake L board move eval_before eval_after =
     \<lparr>position_before_move =
        \<lparr>fen = board_fen L board, move_number = board_fullmove_number L board,
         player_color = mover L board\<rparr>,
      position_after_move =
        \<lparr>fen = board_fen L (board_push L board move),
         move_number = board_fullmove_number L board,
         player_color = mover L board\<rparr>,
      move_played = board_san L board move,
      evaluation_before = eval_before,
      evaluation_after = flipped eval_after,
      eval_drop_cp = score_cp eval_before - score_cp (flipped eval_after)\<rparr>"

definition move_outcome ::
  "('b, 'm, 'h) chess \<Rightarrow> 'h GameAnalyzer \<Rightarrow> string \<Rightarrow> 'b \<Rightarrow> 'm \<Rightarrow> 'b outcome" where
  "move_outcome L self target_color board move =
     (if target_color \<noteq> ''both'' \<and> target_color \<noteq> mover L board then Skipped
      else
        (case evaluate L (analyzer_engine self) board of
           Inl e \<Rightarrow> Failed [board] e
         | Inr eval_before \<Rightarrow>
             (case evaluate L (analyzer_engine self) (board_push L board move) of
                Inl e \<Rightarrow> Failed [board, board_push L board move] e
              | Inr eval_after \<Rightarrow>
                  if is_blunder eval_before (flipped eval_after) (blunder_threshold self)
                  then (case explainer self (built_mistake L board move eval_before eval_after) of
                          Inl e \<Rightarrow> Failed [board, board_push L board move] e
                        | Inr explanation \<Rightarrow>
                            Emitted [board, board_push L board move]
                              \<lparr>the_mistake = built_mistake L board move eval_before eval_after,
                               the_explanation = explanation\<rparr>)
                  else Passed [board, board_push L board move])))"

text \<open>
  The moves of a game, each with the board it is played on, and the boards the evaluator
  is to be called on for a target colour: the board before and the board after each move
  whose mover the target colour does not exclude, in game order.
\<close>

fun positions :: "('b, 'm, 'h) chess \<Rightarrow> 'b \<Rightarrow> 'm list \<Rightarrow> ('b \<times> 'm) list" where
  "positions L board [] = []"
| "positions L board (move # rest) = (board, move) # positions L (board_push L board move) rest"

definition included :: "('b, 'm, 'h) chess \<Rightarrow> string \<Rightarrow> 'b \<times> 'm \<Rightarrow> bool" where
  "included L target_color p = (target_color = ''both'' \<or> target_color = mover L (fst p))"

definition evaluated_boards :: "('b, 'm, 'h) chess \<Rightarrow> string \<Rightarrow> 'b \<Rightarrow> 'm list \<Rightarrow> 'b list" where
  "evaluated_boards L target_color board mainline =
     concat (map (\<lambda>p. [fst p, board_push L (fst p) (snd p)])
                 (filter (included L target_color) (positions L board mainline)))"

definition mover_of :: "AnalyzedMistake \<Rightarrow> string" where
  "mover_of am = player_color (position_before_move (the_mistake am))"


section \<open>A small instance of the library\<close>

text \<open>
  To run the pipeline on concrete games: a board is the side to move, the full-move
  number and the moves played; a move is its own notation, and the moves the parser
  knows are \<open>e4\<close>, \<open>e5\<close>, \<open>Nf3\<close> and \<open>Nc6\<close>. A game text is read word by word:
  move numbers (words that end in a full stop) and the result \<open>*\<close> are passed over,
  and the first word that is no move is noted as an error and ends the main line, as
  the library's parser does with a move it cannot read. The engine process 0 reports,
  from the side to move, 50 centipawns at the start, -80 after one move, 30 after two
  and 0 later, with a principal variation at the start only, and quits when asked; any
  other process has died, and fails on every request.
\<close>

type_synonym toy_board = "color \<times> int \<times> string list"

definition toy_push :: "toy_board \<Rightarrow> string \<Rightarrow> toy_board" where
  "toy_push b m =
     (case b of (t, n, played) \<Rightarrow>
        (if t = WHITE then BLACK else WHITE, if t = BLACK then n + 1 else n, played @ [m]))"

definition toy_fen :: "toy_board \<Rightarrow> string" where
  "toy_fen b =
     (case b of (t, n, played) \<Rightarrow>
        concat (map (\<lambda>m. m @ ''/'') played) @ (if t = WHITE then ''w'' else ''b''))"

fun toy_relative :: "nat \<Rightarrow> int" where
  "toy_relative 0 = 50"
| "toy_relative (Suc 0) = - 80"
| "toy_relative (Suc (Suc 0)) = 30"
| "toy_relative (Suc (Suc (Suc n))) = 0"

definition toy_analyse :: "nat \<Rightarrow> toy_board \<Rightarrow> int \<Rightarrow> error + string info" where
  "toy_analyse h b d =
     (if h \<noteq> 0 then Inl (EngineError ''engine process died'')
      else
        (case b of (t, n, played) \<Rightarrow>
           Inr \<lparr>info_score = Some \<lparr>relative = Cp (toy_relative (length played)), pov_turn = t\<rparr>,
                info_pv = (if played = [] then [''d4''] else [])\<rparr>))"

fun toy_words :: "unicode list \<Rightarrow> string list \<times> string list" where
  "toy_words [] = ([], [])"
| "toy_words (w # ws) =
     (if w = [] \<or> last w = 0x2E \<or> w = ascii ''*'' then toy_words ws
      else (case map_of (map (\<lambda>m. (ascii m, m)) [''e4'', ''e5'', ''Nf3'', ''Nc6'']) w of
              Some m \<Rightarrow> (case toy_words ws of (ms, es) \<Rightarrow> (m # ms, es))
            | None \<Rightarrow> ([], [''illegal san''])))"

definition toy_chess :: "(toy_board, string, nat) chess" where
  "toy_chess =
     \<lparr>board_turn = fst,
      board_push = toy_push,
      board_fen = toy_fen,
      board_fullmove_number = (\<lambda>b. fst (snd b)),
      board_san = (\<lambda>b m. m),
      move_uci = (\<lambda>m. m),
      parse_game = (\<lambda>s. ((WHITE, 1, []), fst (toy_words (split_on 0x20 s)))),
      parse_errors = (\<lambda>s. snd (toy_words (split_on 0x20 s))),
      popen_uci = (\<lambda>p. Inr 0),
      analyse = toy_analyse,
      engine_quit = (\<lambda>h. if h = 0 then None else Some (EngineError ''engine process died''))\<rparr>"

definition toy_analyzer :: "real \<Rightarrow> nat GameAnalyzer" where
  "toy_analyzer threshold =
     \<lparr>analyzer_engine = \<lparr>stockfish_path = ''stockfish'', depth = 18, engine = Some 0\<rparr>,
      explainer = (\<lambda>m. Inr (mock_explain_mistake m)),
      blunder_threshold = threshold\<rparr>"

text \<open>
  The two mistakes the pipeline reports on the game \<open>e4 e5 Nf3\<close> of this instance at
  the threshold 100, and a mistake with the explanation of the mock explainer.
\<close>

definition toy_mistake_e4 :: Mistake where
  "toy_mistake_e4 =
     \<lparr>position_before_move = \<lparr>fen = ''w'', move_number = 1, player_color = ''white''\<rparr>,
      position_after_move = \<lparr>fen = ''e4/b'', move_number = 1, player_color = ''white''\<rparr>,
      move_played = ''e4'',
      evaluation_before = \<lparr>score_cp = 50, best_move_uci = ''d4'', best_move_san = ''d4''\<rparr>,
      evaluation_after = \<lparr>score_cp = - 80, best_move_uci = [], best_move_san = ''(none)''\<rparr>,
      eval_drop_cp = 130\<rparr>"

definition toy_mistake_e5 :: Mistake where
  "toy_mistake_e5 =
     \<lparr>position_before_move = \<lparr>fen = ''e4/b'', move_number = 1, player_color = ''black''\<rparr>,
      position_after_move = \<lparr>fen = ''e4/e5/w'', move_number = 1, player_color = ''black''\<rparr>,
      move_played = ''e5'',
      evaluation_before = \<lparr>score_cp = 80, best_move_uci = [], best_move_san = ''(none)''\<rparr>,
      evaluation_after = \<lparr>score_cp = - 30, best_move_uci = [], best_move_san = ''(none)''\<rparr>,
      eval_drop_cp = 110\<rparr>"

definition mock_explained :: "Mistake \<Rightarrow> AnalyzedMistake" where
  "mock_explained m = \<lparr>the_mistake = m, the_explanation = mock_explain_mistake m\<rparr>"

section \<open>The loop as the iteration of one pass\<close>

lemma mainline_loop_Cons:
  "mainline_loop L self tc (move # rest) board calls mistakes =
     (case move_outcome L self tc board move of
        Skipped \<Rightarrow> mainline_loop L self tc rest (board_push L board move) calls mistakes
      | Failed cs e \<Rightarrow> (calls @ cs, Inl e)
      | Passed cs \<Rightarrow> mainline_loop L self tc rest (board_push L board move) (calls @ cs) mistakes
      | Emitted cs am \<Rightarrow>
          mainline_loop L self tc rest (board_push L board move) (calls @ cs) (mistakes @ [am]))"
  unfolding mainline_loop.simps move_outcome_def built_mistake_def flipped_def mover_def Let_def
  by (simp split: sum.split)

declare mainline_loop.simps(2) [simp del]

lemma move_outcome_Emitted:
  assumes "move_outcome L A tc b m = Emitted cs am"
  shows "cs = [b, board_push L b m]"
    and "included L tc (b, m)"
    and "\<exists>eb ea. evaluate L (analyzer_engine A) b = Inr eb
           \<and> evaluate L (analyzer_engine A) (board_push L b m) = Inr ea
           \<and> is_blunder eb (flipped ea) (blunder_threshold A)
           \<and> the_mistake am = built_mistake L b m eb ea
           \<and> explainer A (the_mistake am) = Inr (the_explanation am)"
  using assms
  by (auto simp: move_outcome_def included_def split: if_splits sum.splits)

lemma move_outcome_Passed:
  assumes "move_outcome L A tc b m = Passed cs"
  shows "cs = [b, board_push L b m]" and "included L tc (b, m)"
  using assms
  by (auto simp: move_outcome_def included_def split: if_splits sum.splits)

lemma move_outcome_Failed:
  assumes "move_outcome L A tc b m = Failed cs e"
  shows "prefix cs [b, board_push L b m]" and "included L tc (b, m)"
  using assms
  by (auto simp: move_outcome_def included_def split: if_splits sum.splits)

lemma move_outcome_Skipped:
  "move_outcome L A tc b m = Skipped \<longleftrightarrow> \<not> included L tc (b, m)"
  by (auto simp: move_outcome_def included_def split: if_splits sum.splits)

lemma evaluated_boards_Cons:
  "evaluated_boards L tc b (m # ms) =
     (if included L tc (b, m) then [b, board_push L b m] else [])
     @ evaluated_boards L tc (board_push L b m) ms"
  by (simp add: evaluated_boards_def)

lemma loop_calls:
  "mainline_loop L A tc ms b calls acc = (cs, r) \<Longrightarrow>
     (\<exists>cs'. cs = calls @ cs' \<and> prefix cs' (evaluated_boards L tc b ms)
        \<and> (\<forall>out. r = Inr out \<longrightarrow> cs' = evaluated_boards L tc b ms))"
proof (induction ms arbitrary: b calls acc)
  case Nil
  then show ?case by (auto simp: evaluated_boards_def)
next
  case (Cons m ms)
  let ?b = "board_push L b m"
  show ?case
  proof (cases "move_outcome L A tc b m")
    case Skipped
    with Cons.prems have "mainline_loop L A tc ms ?b calls acc = (cs, r)"
      by (simp add: mainline_loop_Cons)
    from Cons.IH [OF this] Skipped show ?thesis
      by (simp add: evaluated_boards_Cons move_outcome_Skipped)
  next
    case (Failed cs0 e)
    with Cons.prems have "cs = calls @ cs0" "r = Inl e"
      by (simp_all add: mainline_loop_Cons)
    moreover have "prefix cs0 ([b, ?b] @ evaluated_boards L tc ?b ms)"
      using move_outcome_Failed(1) [OF Failed] by (rule prefix_prefix)
    then have "prefix cs0 (evaluated_boards L tc b (m # ms))"
      using move_outcome_Failed(2) [OF Failed] by (simp add: evaluated_boards_Cons)
    ultimately show ?thesis by simp
  next
    case (Passed cs0)
    with Cons.prems have "mainline_loop L A tc ms ?b (calls @ cs0) acc = (cs, r)"
      by (simp add: mainline_loop_Cons)
    from Cons.IH [OF this] move_outcome_Passed [OF Passed] show ?thesis
      by (auto simp: evaluated_boards_Cons)
  next
    case (Emitted cs0 am)
    with Cons.prems have "mainline_loop L A tc ms ?b (calls @ cs0) (acc @ [am]) = (cs, r)"
      by (simp add: mainline_loop_Cons)
    from Cons.IH [OF this] move_outcome_Emitted(1,2) [OF Emitted] show ?thesis
      by (auto simp: evaluated_boards_Cons)
  qed
qed

lemma loop_emitted:
  "mainline_loop L A tc ms b calls acc = (cs, Inr out) \<Longrightarrow>
     (\<exists>new. out = acc @ new
        \<and> (\<forall>am \<in> set new. \<exists>p \<in> set (positions L b ms). \<exists>cs0.
              move_outcome L A tc (fst p) (snd p) = Emitted cs0 am))"
proof (induction ms arbitrary: b calls acc)
  case Nil
  then show ?case by simp
next
  case (Cons m ms)
  let ?b = "board_push L b m"
  show ?case
  proof (cases "move_outcome L A tc b m")
    case Skipped
    with Cons.prems have "mainline_loop L A tc ms ?b calls acc = (cs, Inr out)"
      by (simp add: mainline_loop_Cons)
    from Cons.IH [OF this] show ?thesis by auto
  next
    case (Failed cs0 e)
    with Cons.prems show ?thesis by (simp add: mainline_loop_Cons)
  next
    case (Passed cs0)
    with Cons.prems have "mainline_loop L A tc ms ?b (calls @ cs0) acc = (cs, Inr out)"
      by (simp add: mainline_loop_Cons)
    from Cons.IH [OF this] show ?thesis by auto
  next
    case (Emitted cs0 am)
    with Cons.prems have "mainline_loop L A tc ms ?b (calls @ cs0) (acc @ [am]) = (cs, Inr out)"
      by (simp add: mainline_loop_Cons)
    from Cons.IH [OF this] obtain new where new: "out = (acc @ [am]) @ new"
      "\<forall>am \<in> set new. \<exists>p \<in> set (positions L ?b ms). \<exists>cs0.
              move_outcome L A tc (fst p) (snd p) = Emitted cs0 am"
      by blast
    show ?thesis
    proof (intro exI conjI ballI)
      show "out = acc @ (am # new)" using new(1) by simp
    next
      fix x assume "x \<in> set (am # new)"
      then consider "x = am" | "x \<in> set new" by auto
      then show "\<exists>p \<in> set (positions L b (m # ms)). \<exists>cs0.
              move_outcome L A tc (fst p) (snd p) = Emitted cs0 x"
      proof cases
        case 1
        then show ?thesis using Emitted by auto
      next
        case 2
        then show ?thesis using new(2) by auto
      qed
    qed
  qed
qed


lemma move_outcome_target:
  "tc \<noteq> ''both'' \<Longrightarrow> move_outcome L A tc b m =
     (if mover L b = tc then move_outcome L A ''both'' b m else Skipped)"
  by (auto simp: move_outcome_def)

lemma move_outcome_both_not_Skipped: "move_outcome L A ''both'' b m \<noteq> Skipped"
  by (simp add: move_outcome_Skipped included_def)

lemma mover_of_Emitted:
  "move_outcome L A tc b m = Emitted cs am \<Longrightarrow> mover_of am = mover L b"
  using move_outcome_Emitted(3) [of L A tc b m cs am]
  by (auto simp: mover_of_def built_mistake_def)

lemma loop_target_of_both:
  assumes tc: "tc \<noteq> ''both''"
  shows "mainline_loop L A ''both'' ms b c1 a1 = (cs, Inr out) \<Longrightarrow>
     \<exists>cs'. mainline_loop L A tc ms b c2 (filter (\<lambda>am. mover_of am = tc) a1) =
             (cs', Inr (filter (\<lambda>am. mover_of am = tc) out))"
proof (induction ms arbitrary: b c1 a1 c2)
  case Nil
  then show ?case by simp
next
  case (Cons m ms)
  let ?b = "board_push L b m"
  let ?W = "\<lambda>am. mover_of am = tc"
  note tgt = move_outcome_target [OF tc, of L A b m]
  show ?case
  proof (cases "move_outcome L A ''both'' b m")
    case Skipped
    then show ?thesis by (simp add: move_outcome_both_not_Skipped)
  next
    case (Failed cs0 e)
    with Cons.prems show ?thesis by (simp add: mainline_loop_Cons)
  next
    case (Passed cs0)
    with Cons.prems have run: "mainline_loop L A ''both'' ms ?b (c1 @ cs0) a1 = (cs, Inr out)"
      by (simp add: mainline_loop_Cons)
    show ?thesis
    proof (cases "mover L b = tc")
      case True
      with tgt Passed have "move_outcome L A tc b m = Passed cs0" by simp
      then show ?thesis
        using Cons.IH [OF run, of "c2 @ cs0"] by (simp add: mainline_loop_Cons)
    next
      case False
      with tgt have "move_outcome L A tc b m = Skipped" by simp
      then show ?thesis
        using Cons.IH [OF run, of c2] by (simp add: mainline_loop_Cons)
    qed
  next
    case (Emitted cs0 am)
    with Cons.prems have run: "mainline_loop L A ''both'' ms ?b (c1 @ cs0) (a1 @ [am]) = (cs, Inr out)"
      by (simp add: mainline_loop_Cons)
    have col: "mover_of am = mover L b" using Emitted by (rule mover_of_Emitted)
    show ?thesis
    proof (cases "mover L b = tc")
      case True
      with tgt Emitted have "move_outcome L A tc b m = Emitted cs0 am" by simp
      then show ?thesis
        using Cons.IH [OF run, of "c2 @ cs0"] col True by (simp add: mainline_loop_Cons)
    next
      case False
      with tgt have "move_outcome L A tc b m = Skipped" by simp
      then show ?thesis
        using Cons.IH [OF run, of c2] col False by (simp add: mainline_loop_Cons)
    qed
  qed
qed

lemma analyze_emitted:
  assumes "analyze_pgn L A pgn tc = (calls, Inr out)" and "am \<in> set out"
  shows "\<exists>board move eb ea.
           included L tc (board, move)
         \<and> evaluate L (analyzer_engine A) board = Inr eb
         \<and> evaluate L (analyzer_engine A) (board_push L board move) = Inr ea
         \<and> is_blunder eb (flipped ea) (blunder_threshold A)
         \<and> the_mistake am = built_mistake L board move eb ea
         \<and> explainer A (the_mistake am) = Inr (the_explanation am)"
proof -
  from assms(1) obtain b0 ms where run: "mainline_loop L A tc ms b0 [] [] = (calls, Inr out)"
    by (auto simp: analyze_pgn_def split: option.splits)
  from loop_emitted [OF run] assms(2)
  obtain p cs0 where "move_outcome L A tc (fst p) (snd p) = Emitted cs0 am"
    by auto
  from move_outcome_Emitted(2,3) [OF this] show ?thesis
    by (metis prod.collapse)
qed

section \<open>Runs of the small instance\<close>

lemmas toy_defs = analyze_pgn_def read_game_def no_game_def ascii_def toy_chess_def toy_analyzer_def
  isspace_def
  mainline_loop_Cons move_outcome_def evaluate_def toy_analyse_def score_to_centipawns_def
  is_blunder_def flipped_def built_mistake_def mover_def toy_push_def toy_fen_def
  toy_mistake_e4_def toy_mistake_e5_def mock_explained_def

lemma toy_e4_both:
  "analyze_pgn toy_chess (toy_analyzer 100) (ascii ''e4'') ''both'' =
     ([(WHITE, 1, []), (BLACK, 1, [''e4''])], Inr [mock_explained toy_mistake_e4])"
  by (simp add: toy_defs)

lemma toy_e4_both_150:
  "analyze_pgn toy_chess (toy_analyzer 150) (ascii ''e4'') ''both'' =
     ([(WHITE, 1, []), (BLACK, 1, [''e4''])], Inr [])"
  by (simp add: toy_defs)

lemma toy_game_both:
  "analyze_pgn toy_chess (toy_analyzer 100) (ascii ''e4 e5 Nf3'') ''both'' =
     ([(WHITE, 1, []), (BLACK, 1, [''e4'']), (BLACK, 1, [''e4'']), (WHITE, 2, [''e4'', ''e5'']),
       (WHITE, 2, [''e4'', ''e5'']), (BLACK, 2, [''e4'', ''e5'', ''Nf3''])],
      Inr [mock_explained toy_mistake_e4, mock_explained toy_mistake_e5])"
  by (simp add: toy_defs)

lemma toy_game_white:
  "analyze_pgn toy_chess (toy_analyzer 100) (ascii ''e4 e5 Nf3'') ''white'' =
     ([(WHITE, 1, []), (BLACK, 1, [''e4'']),
       (WHITE, 2, [''e4'', ''e5'']), (BLACK, 2, [''e4'', ''e5'', ''Nf3''])],
      Inr [mock_explained toy_mistake_e4])"
  by (simp add: toy_defs)

lemma toy_game_read:
  "read_game toy_chess (ascii ''e4 e5 Nf3'') = Some ((WHITE, 1, []), [''e4'', ''e5'', ''Nf3''])"
  by (simp add: toy_defs)

lemma toy_game_boards:
  "evaluated_boards toy_chess ''white'' (WHITE, 1, []) [''e4'', ''e5'', ''Nf3''] =
     [(WHITE, 1, []), (BLACK, 1, [''e4'']),
      (WHITE, 2, [''e4'', ''e5'']), (BLACK, 2, [''e4'', ''e5'', ''Nf3''])]"
  by (simp add: evaluated_boards_def included_def toy_defs)


section \<open>The mistakes a run returns\<close>

text \<open>
  Claim C1. Every mistake a run of \<^verbatim>\<open>analyze_pgn\<close> returns stores as \<^verbatim>\<open>eval_drop_cp\<close>
  the difference of the scores of its two evaluations, the evaluation after the move
  being the evaluation of the board after the move with its score negated, and this drop
  is at least the threshold of the analyzer.
\<close>

theorem emitted_drop_consistent:
  assumes "analyze_pgn L self pgn_string target_color = (calls, Inr mistakes)"
    and "am \<in> set mistakes"
  shows "eval_drop_cp (the_mistake am) =
           score_cp (evaluation_before (the_mistake am)) - score_cp (evaluation_after (the_mistake am))
       \<and> real_of_int (eval_drop_cp (the_mistake am)) \<ge> blunder_threshold self
       \<and> (\<exists>board move eval_after.
             evaluate L (analyzer_engine self) (board_push L board move) = Inr eval_after
           \<and> evaluation_after (the_mistake am) =
               \<lparr>score_cp = - score_cp eval_after,
                best_move_uci = best_move_uci eval_after,
                best_move_san = best_move_san eval_after\<rparr>)"
proof -
  from analyze_emitted [OF assms] obtain board move eb ea where
    ea: "evaluate L (analyzer_engine self) (board_push L board move) = Inr ea"
    and bl: "is_blunder eb (flipped ea) (blunder_threshold self)"
    and m: "the_mistake am = built_mistake L board move eb ea"
    by blast
  have "eval_drop_cp (the_mistake am) =
           score_cp (evaluation_before (the_mistake am)) - score_cp (evaluation_after (the_mistake am))"
    by (simp add: m built_mistake_def)
  moreover have "real_of_int (eval_drop_cp (the_mistake am)) \<ge> blunder_threshold self"
    using bl by (simp add: m built_mistake_def is_blunder_def Let_def)
  moreover have "evaluation_after (the_mistake am) =
               \<lparr>score_cp = - score_cp ea, best_move_uci = best_move_uci ea,
                best_move_san = best_move_san ea\<rparr>"
    by (simp add: m built_mistake_def flipped_def)
  ultimately show ?thesis using ea by blast
qed

theorem emitted_drop_consistent_witness:
  "analyze_pgn toy_chess (toy_analyzer 100) (ascii ''e4'') ''both'' =
     ([(WHITE, 1, []), (BLACK, 1, [''e4''])], Inr [mock_explained toy_mistake_e4])
   \<and> mock_explained toy_mistake_e4 \<in> set [mock_explained toy_mistake_e4]
   \<and> eval_drop_cp toy_mistake_e4 = 130
   \<and> eval_drop_cp toy_mistake_e4 =
       score_cp (evaluation_before toy_mistake_e4) - score_cp (evaluation_after toy_mistake_e4)
   \<and> real_of_int (eval_drop_cp toy_mistake_e4) \<ge> blunder_threshold (toy_analyzer 100)"
proof -
  have run: "analyze_pgn toy_chess (toy_analyzer 100) (ascii ''e4'') ''both'' =
     ([(WHITE, 1, []), (BLACK, 1, [''e4''])], Inr [mock_explained toy_mistake_e4])"
    by (rule toy_e4_both)
  have mem: "mock_explained toy_mistake_e4 \<in> set [mock_explained toy_mistake_e4]"
    by simp
  from emitted_drop_consistent [OF run mem] run mem show ?thesis
    by (simp add: mock_explained_def toy_mistake_e4_def)
qed

text \<open>
  Claim C10. In every mistake a run returns, the position after the move carries the
  move number and the player colour of the position before the move: both are the
  full-move number and the side to move of the board the move is played on, while the
  position string of the second is that of the board after the move.
\<close>

theorem positions_share_mover_and_number:
  assumes "analyze_pgn L self pgn_string target_color = (calls, Inr mistakes)"
    and "am \<in> set mistakes"
  shows "move_number (position_after_move (the_mistake am)) =
           move_number (position_before_move (the_mistake am))
       \<and> player_color (position_after_move (the_mistake am)) =
           player_color (position_before_move (the_mistake am))
       \<and> (\<exists>board move.
             position_before_move (the_mistake am) =
               \<lparr>fen = board_fen L board, move_number = board_fullmove_number L board,
                player_color = (if board_turn L board = WHITE then ''white'' else ''black'')\<rparr>
           \<and> position_after_move (the_mistake am) =
               \<lparr>fen = board_fen L (board_push L board move),
                move_number = board_fullmove_number L board,
                player_color = (if board_turn L board = WHITE then ''white'' else ''black'')\<rparr>)"
proof -
  from analyze_emitted [OF assms] obtain board move eb ea where
    m: "the_mistake am = built_mistake L board move eb ea"
    by blast
  have "position_before_move (the_mistake am) =
               \<lparr>fen = board_fen L board, move_number = board_fullmove_number L board,
                player_color = (if board_turn L board = WHITE then ''white'' else ''black'')\<rparr>"
    by (simp add: m built_mistake_def mover_def)
  moreover have "position_after_move (the_mistake am) =
               \<lparr>fen = board_fen L (board_push L board move),
                move_number = board_fullmove_number L board,
                player_color = (if board_turn L board = WHITE then ''white'' else ''black'')\<rparr>"
    by (simp add: m built_mistake_def mover_def)
  moreover have "move_number (position_after_move (the_mistake am)) =
           move_number (position_before_move (the_mistake am))"
    by (simp add: m built_mistake_def)
  moreover have "player_color (position_after_move (the_mistake am)) =
           player_color (position_before_move (the_mistake am))"
    by (simp add: m built_mistake_def)
  ultimately show ?thesis by blast
qed

theorem positions_share_mover_and_number_witness:
  "analyze_pgn toy_chess (toy_analyzer 100) (ascii ''e4 e5 Nf3'') ''both'' =
     ([(WHITE, 1, []), (BLACK, 1, [''e4'']), (BLACK, 1, [''e4'']), (WHITE, 2, [''e4'', ''e5'']),
       (WHITE, 2, [''e4'', ''e5'']), (BLACK, 2, [''e4'', ''e5'', ''Nf3''])],
      Inr [mock_explained toy_mistake_e4, mock_explained toy_mistake_e5])
   \<and> mock_explained toy_mistake_e5 \<in> set [mock_explained toy_mistake_e4, mock_explained toy_mistake_e5]
   \<and> position_before_move toy_mistake_e5 = \<lparr>fen = ''e4/b'', move_number = 1, player_color = ''black''\<rparr>
   \<and> position_after_move toy_mistake_e5 = \<lparr>fen = ''e4/e5/w'', move_number = 1, player_color = ''black''\<rparr>
   \<and> move_number (position_after_move toy_mistake_e5) = move_number (position_before_move toy_mistake_e5)
   \<and> player_color (position_after_move toy_mistake_e5) = player_color (position_before_move toy_mistake_e5)"
proof -
  have mem: "mock_explained toy_mistake_e5 \<in> set [mock_explained toy_mistake_e4, mock_explained toy_mistake_e5]"
    by simp
  from positions_share_mover_and_number [OF toy_game_both mem] toy_game_both mem show ?thesis
    by (simp add: mock_explained_def toy_mistake_e5_def)
qed




text \<open>
  Claim C6. On a parsed game, every mistake of a run for \<^verbatim>\<open>'white'\<close> has the player
  colour \<^verbatim>\<open>'white'\<close> in both positions; when the run for \<^verbatim>\<open>'both'\<close> returns, the run
  for \<^verbatim>\<open>'white'\<close> returns its white mistakes, in the same order; and for any target
  colour the evaluator is called only on the boards before and after the moves whose
  mover the target colour does not exclude, in game order (all of them when the run
  returns, a first part of them when it raises).
\<close>

theorem color_filter_exact:
  assumes game: "read_game L pgn_string = Some (board, mainline)"
  shows "(analyze_pgn L self pgn_string ''white'' = (calls, Inr whites) \<longrightarrow>
            (\<forall>am \<in> set whites.
                player_color (position_before_move (the_mistake am)) = ''white''
              \<and> player_color (position_after_move (the_mistake am)) = ''white''))
       \<and> (analyze_pgn L self pgn_string ''both'' = (calls_both, Inr both) \<longrightarrow>
            (\<exists>calls_white. analyze_pgn L self pgn_string ''white'' =
               (calls_white,
                Inr (filter (\<lambda>am. player_color (position_before_move (the_mistake am)) = ''white'')
                       both))))
       \<and> (analyze_pgn L self pgn_string target_color = (calls_target, r) \<longrightarrow>
            prefix calls_target (evaluated_boards L target_color board mainline)
          \<and> (\<forall>out. r = Inr out \<longrightarrow> calls_target = evaluated_boards L target_color board mainline))"
proof (intro conjI impI ballI)
  fix am
  assume run: "analyze_pgn L self pgn_string ''white'' = (calls, Inr whites)"
    and mem: "am \<in> set whites"
  from analyze_emitted [OF run mem] obtain b m eb ea where
    inc: "included L ''white'' (b, m)" and m: "the_mistake am = built_mistake L b m eb ea"
    by blast
  from inc have "mover L b = ''white''" by (simp add: included_def)
  then show "player_color (position_before_move (the_mistake am)) = ''white''"
    and "player_color (position_after_move (the_mistake am)) = ''white''"
    by (simp_all add: m built_mistake_def)
next
  assume "analyze_pgn L self pgn_string ''both'' = (calls_both, Inr both)"
  with game have "mainline_loop L self ''both'' mainline board [] [] = (calls_both, Inr both)"
    by (simp add: analyze_pgn_def)
  from loop_target_of_both [OF _ this, of "''white''" "[]"]
  show "\<exists>calls_white. analyze_pgn L self pgn_string ''white'' =
               (calls_white,
                Inr (filter (\<lambda>am. player_color (position_before_move (the_mistake am)) = ''white'')
                       both))"
    using game by (simp add: analyze_pgn_def mover_of_def)
next
  assume "analyze_pgn L self pgn_string target_color = (calls_target, r)"
  with game have run: "mainline_loop L self target_color mainline board [] [] = (calls_target, r)"
    by (simp add: analyze_pgn_def)
  from loop_calls [OF run]
  show "prefix calls_target (evaluated_boards L target_color board mainline)"
    and "\<forall>out. r = Inr out \<longrightarrow> calls_target = evaluated_boards L target_color board mainline"
    by auto
qed

theorem color_filter_exact_witness:
  "read_game toy_chess (ascii ''e4 e5 Nf3'') = Some ((WHITE, 1, []), [''e4'', ''e5'', ''Nf3''])
   \<and> analyze_pgn toy_chess (toy_analyzer 100) (ascii ''e4 e5 Nf3'') ''both'' =
     ([(WHITE, 1, []), (BLACK, 1, [''e4'']), (BLACK, 1, [''e4'']), (WHITE, 2, [''e4'', ''e5'']),
       (WHITE, 2, [''e4'', ''e5'']), (BLACK, 2, [''e4'', ''e5'', ''Nf3''])],
      Inr [mock_explained toy_mistake_e4, mock_explained toy_mistake_e5])
   \<and> analyze_pgn toy_chess (toy_analyzer 100) (ascii ''e4 e5 Nf3'') ''white'' =
     ([(WHITE, 1, []), (BLACK, 1, [''e4'']),
       (WHITE, 2, [''e4'', ''e5'']), (BLACK, 2, [''e4'', ''e5'', ''Nf3''])],
      Inr [mock_explained toy_mistake_e4])
   \<and> filter (\<lambda>am. player_color (position_before_move (the_mistake am)) = ''white'')
        [mock_explained toy_mistake_e4, mock_explained toy_mistake_e5] = [mock_explained toy_mistake_e4]
   \<and> evaluated_boards toy_chess ''white'' (WHITE, 1, []) [''e4'', ''e5'', ''Nf3''] =
       [(WHITE, 1, []), (BLACK, 1, [''e4'']),
        (WHITE, 2, [''e4'', ''e5'']), (BLACK, 2, [''e4'', ''e5'', ''Nf3''])]
   \<and> player_color (position_before_move (the_mistake (mock_explained toy_mistake_e4))) = ''white''
   \<and> player_color (position_after_move (the_mistake (mock_explained toy_mistake_e4))) = ''white''"
proof -
  note inst = color_filter_exact [OF toy_game_read, of "toy_analyzer 100"
      "[(WHITE, 1, []), (BLACK, 1, [''e4'']),
       (WHITE, 2, [''e4'', ''e5'']), (BLACK, 2, [''e4'', ''e5'', ''Nf3''])]"
      "[mock_explained toy_mistake_e4]"
      "[(WHITE, 1, []), (BLACK, 1, [''e4'']), (BLACK, 1, [''e4'']), (WHITE, 2, [''e4'', ''e5'']),
       (WHITE, 2, [''e4'', ''e5'']), (BLACK, 2, [''e4'', ''e5'', ''Nf3''])]"
      "[mock_explained toy_mistake_e4, mock_explained toy_mistake_e5]"
      "''white''"
      "[(WHITE, 1, []), (BLACK, 1, [''e4'']),
       (WHITE, 2, [''e4'', ''e5'']), (BLACK, 2, [''e4'', ''e5'', ''Nf3''])]"
      "Inr [mock_explained toy_mistake_e4]"]
  have flt: "filter (\<lambda>am. player_color (position_before_move (the_mistake am)) = ''white'')
        [mock_explained toy_mistake_e4, mock_explained toy_mistake_e5] = [mock_explained toy_mistake_e4]"
    by (simp add: mock_explained_def toy_mistake_e4_def toy_mistake_e5_def)
  from inst toy_game_read toy_game_both toy_game_white toy_game_boards flt
  show ?thesis by (simp add: mock_explained_def toy_mistake_e4_def toy_mistake_e5_def)
qed

section \<open>The classifier, the session and the response parser\<close>

text \<open>
  Claim C5. The classifier is a function of its three arguments alone: it answers true
  exactly when the score before minus the score after is at least the threshold. Hence
  it is monotone in the threshold: a mistake at a threshold is a mistake at every lower
  one, and a move that is no mistake at a threshold is none at any higher one.
\<close>

theorem is_blunder_iff_drop:
  "is_blunder e_before e_after t = (real_of_int (score_cp e_before - score_cp e_after) \<ge> t)
   \<and> (t \<le> t' \<longrightarrow> is_blunder e_before e_after t' \<longrightarrow> is_blunder e_before e_after t)
   \<and> (t \<le> t' \<longrightarrow> \<not> is_blunder e_before e_after t \<longrightarrow> \<not> is_blunder e_before e_after t')"
  by (simp add: is_blunder_def Let_def)

theorem is_blunder_iff_drop_witness:
  "(100::real) \<le> 150
   \<and> is_blunder \<lparr>score_cp = 250, best_move_uci = ''d2d4'', best_move_san = ''d4''\<rparr>
        \<lparr>score_cp = 80, best_move_uci = [], best_move_san = ''(none)''\<rparr> 150
   \<and> is_blunder \<lparr>score_cp = 250, best_move_uci = ''d2d4'', best_move_san = ''d4''\<rparr>
        \<lparr>score_cp = 80, best_move_uci = [], best_move_san = ''(none)''\<rparr> 100
   \<and> \<not> is_blunder \<lparr>score_cp = 50, best_move_uci = ''d2d4'', best_move_san = ''d4''\<rparr>
        \<lparr>score_cp = - 30, best_move_uci = [], best_move_san = ''(none)''\<rparr> 100
   \<and> \<not> is_blunder \<lparr>score_cp = 50, best_move_uci = ''d2d4'', best_move_san = ''d4''\<rparr>
        \<lparr>score_cp = - 30, best_move_uci = [], best_move_san = ''(none)''\<rparr> 150"
  using is_blunder_iff_drop [of "\<lparr>score_cp = 250, best_move_uci = ''d2d4'', best_move_san = ''d4''\<rparr>"
      "\<lparr>score_cp = 80, best_move_uci = [], best_move_san = ''(none)''\<rparr>" 100 150]
    is_blunder_iff_drop [of "\<lparr>score_cp = 50, best_move_uci = ''d2d4'', best_move_san = ''d4''\<rparr>"
      "\<lparr>score_cp = - 30, best_move_uci = [], best_move_san = ''(none)''\<rparr>" 100 150]
  by (simp add: is_blunder_def)

lemma close_no_process: "engine self = None \<Longrightarrow> close L self = ([], None, self)"
  by (simp add: close_def)

lemma close_quit_returns:
  "engine self = Some h \<Longrightarrow> engine_quit L h = None \<Longrightarrow>
     close L self = ([h], None, self\<lparr>engine := None\<rparr>)"
  by (simp add: close_def)

lemma close_funpow:
  assumes "engine self = Some h" and "engine_quit L h = None"
  shows "((\<lambda>s. snd (snd (close L s))) ^^ Suc n) self = self\<lparr>engine := None\<rparr>"
proof (induction n)
  case 0
  show ?case using close_quit_returns [OF assms] by simp
next
  case (Suc n)
  have "((\<lambda>s. snd (snd (close L s))) ^^ Suc (Suc n)) self =
          snd (snd (close L (((\<lambda>s. snd (snd (close L s))) ^^ Suc n) self)))"
    by simp
  also have "\<dots> = snd (snd (close L (self\<lparr>engine := None\<rparr>)))"
    by (simp only: Suc.IH)
  also have "\<dots> = self\<lparr>engine := None\<rparr>"
    by (simp add: close_no_process)
  finally show ?case .
qed

text \<open>
  Claim C9, as the code has it. On a session that holds no process (never started, or
  closed) \<^verbatim>\<open>close\<close> succeeds, asks no process to quit and changes nothing. On a started
  session whose process quits when asked, \<^verbatim>\<open>close\<close> succeeds and leaves the session
  without a process; every later \<^verbatim>\<open>close\<close> then succeeds and changes nothing, so any
  number of calls leaves the session as one call does. When \<^verbatim>\<open>quit()\<close> raises,
  \<^verbatim>\<open>close\<close> raises the same exception and the session keeps its process.
\<close>

theorem close_idempotent_when_quit_returns:
  "(engine self = None \<longrightarrow> close L self = ([], None, self))
   \<and> (engine self = Some h \<and> engine_quit L h = None \<longrightarrow>
        close L self = ([h], None, self\<lparr>engine := None\<rparr>)
      \<and> close L (self\<lparr>engine := None\<rparr>) = ([], None, self\<lparr>engine := None\<rparr>)
      \<and> ((\<lambda>s. snd (snd (close L s))) ^^ Suc n) self = self\<lparr>engine := None\<rparr>)
   \<and> (engine self = Some h \<and> engine_quit L h = Some e \<longrightarrow> close L self = ([h], Some e, self))"
proof (intro conjI impI)
  assume "engine self = None"
  then show "close L self = ([], None, self)" by (rule close_no_process)
next
  assume a: "engine self = Some h \<and> engine_quit L h = None"
  then show "close L self = ([h], None, self\<lparr>engine := None\<rparr>)"
    by (simp add: close_quit_returns)
  show "close L (self\<lparr>engine := None\<rparr>) = ([], None, self\<lparr>engine := None\<rparr>)"
    by (simp add: close_no_process)
  show "((\<lambda>s. snd (snd (close L s))) ^^ Suc n) self = self\<lparr>engine := None\<rparr>"
    by (rule close_funpow [OF conjunct1 [OF a] conjunct2 [OF a]])
next
  assume "engine self = Some h \<and> engine_quit L h = Some e"
  then show "close L self = ([h], Some e, self)" by (simp add: close_def)
qed

theorem close_idempotent_when_quit_returns_witness:
  "close toy_chess \<lparr>stockfish_path = ''stockfish'', depth = 18, engine = None\<rparr> =
     ([], None, \<lparr>stockfish_path = ''stockfish'', depth = 18, engine = None\<rparr>)
   \<and> engine_quit toy_chess 0 = None
   \<and> close toy_chess \<lparr>stockfish_path = ''stockfish'', depth = 18, engine = Some 0\<rparr> =
     ([0], None, \<lparr>stockfish_path = ''stockfish'', depth = 18, engine = None\<rparr>)
   \<and> ((\<lambda>s. snd (snd (close toy_chess s))) ^^ Suc 2)
        \<lparr>stockfish_path = ''stockfish'', depth = 18, engine = Some 0\<rparr> =
     \<lparr>stockfish_path = ''stockfish'', depth = 18, engine = None\<rparr>
   \<and> engine_quit toy_chess 1 = Some (EngineError ''engine process died'')
   \<and> close toy_chess \<lparr>stockfish_path = ''stockfish'', depth = 18, engine = Some 1\<rparr> =
     ([1], Some (EngineError ''engine process died''),
      \<lparr>stockfish_path = ''stockfish'', depth = 18, engine = Some 1\<rparr>)"
proof -
  have q0: "engine_quit toy_chess 0 = None"
    and q1: "engine_quit toy_chess 1 = Some (EngineError ''engine process died'')"
    by (simp_all add: toy_chess_def)
  from close_idempotent_when_quit_returns
         [of "\<lparr>stockfish_path = ''stockfish'', depth = 18, engine = None\<rparr>" toy_chess]
    close_idempotent_when_quit_returns
         [of "\<lparr>stockfish_path = ''stockfish'', depth = 18, engine = Some 0\<rparr>" toy_chess 0 2]
    close_idempotent_when_quit_returns
         [of "\<lparr>stockfish_path = ''stockfish'', depth = 18, engine = Some 1\<rparr>" toy_chess 1 0
             "EngineError ''engine process died''"]
    q0 q1
  show ?thesis by simp
qed

text \<open>
  Claim C9 as it is worded, that \<^verbatim>\<open>close\<close> succeeds in any state and leaves the session
  without a process, does not hold on a started session whose process has died: there
  \<^verbatim>\<open>close\<close> raises, the session keeps the process, and the next \<^verbatim>\<open>close\<close> asks it to
  quit and raises again.
\<close>

theorem close_raises_on_dead_process:
  "close toy_chess \<lparr>stockfish_path = ''stockfish'', depth = 18, engine = Some 1\<rparr> =
     ([1], Some (EngineError ''engine process died''),
      \<lparr>stockfish_path = ''stockfish'', depth = 18, engine = Some 1\<rparr>)
   \<and> close toy_chess
       (snd (snd (close toy_chess \<lparr>stockfish_path = ''stockfish'', depth = 18, engine = Some 1\<rparr>))) =
     ([1], Some (EngineError ''engine process died''),
      \<lparr>stockfish_path = ''stockfish'', depth = 18, engine = Some 1\<rparr>)"
  by (simp add: close_def toy_chess_def)





section \<open>The perspective of the stored scores\<close>

lemma score_to_centipawns_white_view:
  "pov_turn sc = turn \<Longrightarrow> relative sc = Cp n \<Longrightarrow>
     score_of (pov sc WHITE) = Some (score_to_centipawns sc turn)"
  by (cases turn) (simp_all add: pov_def score_to_centipawns_def)

lemma score_to_centipawns_mate_magnitude:
  "mate (relative sc) \<noteq> None \<Longrightarrow> \<bar>score_to_centipawns sc turn\<bar> = 10000"
  by (cases turn) (auto simp: score_to_centipawns_def Let_def split: option.splits)

text \<open>
  Claim C3, that \<^verbatim>\<open>evaluate\<close> returns the score seen from the side to move, so that a
  positive \<^verbatim>\<open>score_cp\<close> favours the side to move. The code negates, for Black to move,
  a score that the library already gives from the side to move
  (\<open>score_to_centipawns_white_view\<close>: what is stored is the score seen from White).
  With Black to move and the engine reporting 50 centipawns for Black, -50 is stored;
  on the board after \<open>e4\<close> of the small instance, where the engine reports -80 for
  Black, who is to move, \<^verbatim>\<open>evaluate\<close> returns 80.
\<close>

theorem evaluate_black_to_move_sign:
  "score_to_centipawns \<lparr>relative = Cp 50, pov_turn = BLACK\<rparr> BLACK = - 50
   \<and> board_turn toy_chess (BLACK, 1, [''e4'']) = BLACK
   \<and> analyse toy_chess 0 (BLACK, 1, [''e4'']) 18 =
        Inr \<lparr>info_score = Some \<lparr>relative = Cp (- 80), pov_turn = BLACK\<rparr>, info_pv = []\<rparr>
   \<and> evaluate toy_chess \<lparr>stockfish_path = ''stockfish'', depth = 18, engine = Some 0\<rparr>
        (BLACK, 1, [''e4'']) =
        Inr \<lparr>score_cp = 80, best_move_uci = [], best_move_san = ''(none)''\<rparr>"
  by (simp add: score_to_centipawns_def evaluate_def toy_chess_def toy_analyse_def)

text \<open>
  Claim C4, that a mate score is stored as 10000 centipawns with the sign of the side
  the mate favours, positive when it favours the side to move. The magnitude is always
  10000 (\<open>score_to_centipawns_mate_magnitude\<close>); the sign is not that of the side to
  move when Black is to move: a mate in 3 for Black, who is to move, is stored as
  -10000, and Black being mated in 2 as 10000.
\<close>

theorem mate_sentinel_black_to_move_sign:
  "score_to_centipawns \<lparr>relative = Mate 3, pov_turn = BLACK\<rparr> BLACK = - 10000
   \<and> score_to_centipawns \<lparr>relative = Mate (- 2), pov_turn = BLACK\<rparr> BLACK = 10000"
  by (simp add: score_to_centipawns_def)

text \<open>
  Claim C2, that negating the score of the evaluation after the move puts it in the
  mover's perspective, the same as the evaluation before the move. The negation itself
  is what the loop does (\<open>move_outcome_Emitted\<close>, \<open>flipped\<close>), but the two scores it
  compares are not in one perspective, since \<^verbatim>\<open>evaluate\<close> returns White's view on both
  boards. In the game \<open>e4\<close> of the small instance the engine gives White 50 before the
  move and 80 after it (-80 for Black, who is then to move); the pipeline compares 50
  with -80 and reports White's move as a drop of 130.
\<close>

theorem normalized_after_not_movers_view:
  "analyse toy_chess 0 (WHITE, 1, []) 18 =
      Inr \<lparr>info_score = Some \<lparr>relative = Cp 50, pov_turn = WHITE\<rparr>, info_pv = [''d4'']\<rparr>
   \<and> analyse toy_chess 0 (BLACK, 1, [''e4'']) 18 =
      Inr \<lparr>info_score = Some \<lparr>relative = Cp (- 80), pov_turn = BLACK\<rparr>, info_pv = []\<rparr>
   \<and> pov \<lparr>relative = Cp 50, pov_turn = WHITE\<rparr> WHITE = Cp 50
   \<and> pov \<lparr>relative = Cp (- 80), pov_turn = BLACK\<rparr> WHITE = Cp 80
   \<and> analyze_pgn toy_chess (toy_analyzer 100) (ascii ''e4'') ''white'' =
      ([(WHITE, 1, []), (BLACK, 1, [''e4''])], Inr [mock_explained toy_mistake_e4])
   \<and> player_color (position_before_move toy_mistake_e4) = ''white''
   \<and> score_cp (evaluation_before toy_mistake_e4) = 50
   \<and> score_cp (evaluation_after toy_mistake_e4) = - 80
   \<and> eval_drop_cp toy_mistake_e4 = 130"
  by (simp add: toy_defs pov_def)

end
